theory Spec2Isabelle
  imports Complex_Main
begin

section \<open>Stage components of the group project block\<close>

text \<open>
  A shallow embedding of \<^verbatim>\<open>group_project_v2/stage_components.py\<close>. The blocks call
  into a host runtime, a remote project API and helper modules that are not part of
  the file. Every such call is made at most once per request, so its outcome (the value
  it returns or the exception it raises) is a field of an environment record, and the
  calls a function makes are returned as a list of events, in the order they are made.
\<close>

subsection \<open>Exceptions, events and the collaborators\<close>

text \<open>
  A raised Python exception: its class and its \<^verbatim>\<open>message\<close> attribute, which an
  exception may lack (\<^verbatim>\<open>hasattr(e, "message")\<close>, \<^verbatim>\<open>getattr(e, "message", default)\<close>).
  An \<^verbatim>\<open>ApiError\<close> carries its \<^verbatim>\<open>code\<close>.
\<close>

datatype exc_class =
  ApiError int | ValueError | KeyError | AttributeError | ParseError | OtherError

record pyexc =
  exc_class :: exc_class
  exc_message :: "string option"

datatype pyval = PStr string | PInt int

type_synonym payload = "(string \<times> pyval) list"

datatype service = NotificationsService

type_synonym stage_state = string

datatype logged = Text string | Raised pyexc

datatype event =
    SaveFile string
  | Submit string
  | Publish string payload
  | FireNotification service
  | CheckSubmissions
  | GetNewStageState
  | LogException logged
  | LogWarn logged

text \<open>
  The outcome of each call the submission block makes: \<open>None\<close> (or \<open>Inr\<close>) when the
  call returns, the exception when it raises. \<^verbatim>\<open>uploaded_file.submit()\<close> leaves the
  submission id and the file url on the uploaded file; \<^verbatim>\<open>runtime.service(self,
  'notifications')\<close> returns the service or \<^verbatim>\<open>None\<close>.
\<close>

record env =
  save_file :: "pyexc option"
  submit :: "pyexc + (string \<times> string)"
  publish :: "pyexc option"
  notifications_service :: "service option"
  fire_file_upload_notification :: "pyexc option"
  check_submissions_and_mark_complete :: "pyexc option"
  get_new_stage_state_data :: "pyexc + stage_state"

record stage =
  available_now :: bool
  is_open :: bool
  is_closed :: bool
  is_group_member :: bool
  STAGE_ACTION :: string

record activity =
  user_id :: int
  workgroup_id :: int
  course_id :: string
  content_id :: string

subsection \<open>GroupProjectSubmissionXBlock\<close>

record submission_block =
  display_name :: string
  description :: string
  upload_id :: string

definition STAGE_NOT_OPEN_TEMPLATE :: "string \<Rightarrow> string" where
  "STAGE_NOT_OPEN_TEMPLATE action = ''Can't '' @ action @ '' as stage is not yet opened.''"

definition STAGE_CLOSED_TEMPLATE :: "string \<Rightarrow> string" where
  "STAGE_CLOSED_TEMPLATE action = ''Can't '' @ action @ '' as stage is closed.''"

definition SUCCESSFUL_UPLOAD_TITLE :: string where
  "SUCCESSFUL_UPLOAD_TITLE = ''Upload complete.''"

definition FAILED_UPLOAD_TITLE :: string where
  "FAILED_UPLOAD_TITLE = ''Upload failed.''"

definition SUCCESSFUL_UPLOAD_MESSAGE_TPL :: "string \<Rightarrow> string" where
  "SUCCESSFUL_UPLOAD_MESSAGE_TPL icon =
     ''Your deliverable have been successfully uploaded. You can attach an updated version of the ''
     @ ''deliverable by clicking the <span class='icon '' @ icon
     @ '''></span> icon at any time before the deadline passes.''"

definition FAILED_UPLOAD_MESSAGE_TPL :: "string \<Rightarrow> string" where
  "FAILED_UPLOAD_MESSAGE_TPL error_goes_here = ''Error uploading file: '' @ error_goes_here"

definition SUBMISSION_RECEIVED_EVENT :: string where
  "SUBMISSION_RECEIVED_EVENT = ''activity.received_submission''"

text \<open>
  \<^verbatim>\<open>get_upload\<close>. The submission map is what
  \<^verbatim>\<open>project_api.get_latest_workgroup_submissions_by_id(group_id)\<close> returned. The helpers
  \<^verbatim>\<open>build_date_field\<close> and \<^verbatim>\<open>format_date\<close> of \<^verbatim>\<open>utils\<close> are parameters.
\<close>

record 'u submission_data =
  document_url :: string
  document_filename :: string
  modified :: string
  user_details :: "'u option"

record 'u SubmissionUpload =
  location :: string
  file_name :: string
  submission_date :: string
  upload_user_details :: "'u option"

definition get_upload ::
  "(string \<Rightarrow> 'd) \<Rightarrow> ('d \<Rightarrow> string) \<Rightarrow> submission_block
     \<Rightarrow> (string \<rightharpoonup> 'u submission_data) \<Rightarrow> 'u SubmissionUpload option" where
  "get_upload build_date_field format_date self submission_map =
     (case submission_map (upload_id self) of
        None \<Rightarrow> None
      | Some submission_data \<Rightarrow>
          Some \<lparr>location = document_url submission_data,
                file_name = document_filename submission_data,
                submission_date = format_date (build_date_field (modified submission_data)),
                upload_user_details = user_details submission_data\<rparr>)"

text \<open>
  The uploaded file as the handler reads it: the name of its file, and the submission id
  and file url it has once \<^verbatim>\<open>submit()\<close> has returned. The class
  \<^verbatim>\<open>UploadFile\<close> itself is not in the file.
\<close>

record uploaded_file =
  uploaded_name :: string
  submission_id :: string
  file_url :: string

definition original_message :: "pyexc \<Rightarrow> string" where
  "original_message e = (case exc_message e of Some m \<Rightarrow> m | None \<Rightarrow> [])"

definition storing_error :: "string \<Rightarrow> pyexc \<Rightarrow> pyexc" where
  "storing_error name save_file_error =
     save_file_error\<lparr>exc_message :=
       Some (''Error storing file '' @ name @ '' - '' @ original_message save_file_error)\<rparr>"

definition recording_error :: "string \<Rightarrow> pyexc \<Rightarrow> pyexc" where
  "recording_error name save_record_error =
     save_record_error\<lparr>exc_message :=
       Some (''Error recording file information '' @ name @ '' - ''
             @ original_message save_record_error)\<rparr>"

definition submission_payload :: "activity \<Rightarrow> uploaded_file \<Rightarrow> payload" where
  "submission_payload activity uploaded =
     [(''submission_id'', PStr (submission_id uploaded)),
      (''filename'', PStr (uploaded_name uploaded)),
      (''content_id'', PStr (content_id activity)),
      (''group_id'', PInt (workgroup_id activity)),
      (''user_id'', PInt (user_id activity))]"

definition persist_and_submit_file ::
  "activity \<Rightarrow> string \<Rightarrow> env \<Rightarrow> event list \<times> (pyexc + uploaded_file)" where
  "persist_and_submit_file activity file_stream w =
     (case save_file w of
        Some save_file_error \<Rightarrow>
          ([SaveFile file_stream], Inl (storing_error file_stream save_file_error))
      | None \<Rightarrow>
          (case submit w of
             Inl save_record_error \<Rightarrow>
               ([SaveFile file_stream, Submit file_stream],
                Inl (recording_error file_stream save_record_error))
           | Inr (sid, url) \<Rightarrow>
               (let uploaded = \<lparr>uploaded_name = file_stream, submission_id = sid, file_url = url\<rparr>;
                    recorded = [SaveFile file_stream, Submit file_stream,
                                Publish SUBMISSION_RECEIVED_EVENT (submission_payload activity uploaded)]
                in case publish w of
                     Some save_record_error \<Rightarrow>
                       (recorded, Inl (recording_error file_stream save_record_error))
                   | None \<Rightarrow>
                       (case notifications_service w of
                          None \<Rightarrow> (recorded, Inr uploaded)
                        | Some notifications \<Rightarrow>
                            (case fire_file_upload_notification w of
                               Some e \<Rightarrow> (recorded @ [FireNotification notifications], Inl e)
                             | None \<Rightarrow>
                                 (recorded @ [FireNotification notifications], Inr uploaded))))))"

text \<open>
  \<^verbatim>\<open>upload_submission\<close>. The response data is the dictionary the handler builds; the
  body of the response is its JSON serialisation, which is not modelled further. A field
  of the request is an uploaded file, given by its name, or a text value, which has no
  \<^verbatim>\<open>file\<close> attribute; the message of the \<^verbatim>\<open>AttributeError\<close> is the one of
  Python 2, where the text values of a request are \<^verbatim>\<open>unicode\<close> objects.
\<close>

datatype json = JStr string | JDict "(string \<times> string) list" | JList "stage_state list"

type_synonym response_data = "string \<rightharpoonup> json"

record response =
  body :: response_data
  status_code :: int

datatype field = FileField string | TextField string

type_synonym request = "string \<rightharpoonup> field"

definition NO_FILE_ATTRIBUTE :: string where
  "NO_FILE_ATTRIBUTE = [CHR 0x27] @ ''unicode' object has no attribute 'file'' @ [CHR 0x27]"

text \<open>
  The last lines of the handler. A fresh \<^verbatim>\<open>webob\<close> response has status 200, and the
  handler assigns \<^verbatim>\<open>status_code\<close> only for a failure code that is not zero. The
  assignment looks up a reason phrase, which \<^verbatim>\<open>webob\<close> has for the codes from 100 to
  599; for any other code it raises a \<^verbatim>\<open>KeyError\<close> (whose key is a number, not a
  text), which leaves the handler.
\<close>

definition make_response :: "response_data \<Rightarrow> int \<Rightarrow> pyexc + response" where
  "make_response response_data failure_code =
     (if failure_code = 0 then Inr \<lparr>body = response_data, status_code = 200\<rparr>
      else if 100 \<le> failure_code \<and> failure_code \<le> 599
      then Inr \<lparr>body = response_data, status_code = failure_code\<rparr>
      else Inl \<lparr>exc_class = KeyError, exc_message = None\<rparr>)"

definition failure_code_of :: "pyexc \<Rightarrow> int" where
  "failure_code_of exception =
     (case exc_class exception of ApiError code \<Rightarrow> code | _ \<Rightarrow> 500)"

definition error_message_of :: "pyexc \<Rightarrow> string" where
  "error_message_of exception =
     (case exc_message exception of Some m \<Rightarrow> m | None \<Rightarrow> ''Unknown error'')"

definition upload_failed ::
  "event list \<Rightarrow> response_data \<Rightarrow> pyexc \<Rightarrow> event list \<times> (pyexc + response)" where
  "upload_failed events response_data exception =
     (events @ [LogException (Raised exception)],
      make_response
        (response_data(''title'' \<mapsto> JStr FAILED_UPLOAD_TITLE,
                       ''message'' \<mapsto> JStr (FAILED_UPLOAD_MESSAGE_TPL (error_message_of exception))))
        (failure_code_of exception))"

definition upload_submission ::
  "submission_block \<Rightarrow> stage \<Rightarrow> activity \<Rightarrow> request \<Rightarrow> env
     \<Rightarrow> event list \<times> (pyexc + response)" where
  "upload_submission self stage target_activity params w =
     (if \<not> available_now stage then
        ([], make_response
               [''result'' \<mapsto> JStr ''error'',
                ''message'' \<mapsto> JStr ((if \<not> is_open stage then STAGE_NOT_OPEN_TEMPLATE
                                         else STAGE_CLOSED_TEMPLATE) (STAGE_ACTION stage))]
               422)
      else if \<not> is_group_member stage then
        ([], make_response
               [''result'' \<mapsto> JStr ''error'',
                ''message'' \<mapsto> JStr ''Only group members can upload files'']
               403)
      else
        (let response_data =
               [''title'' \<mapsto> JStr SUCCESSFUL_UPLOAD_TITLE,
                ''message'' \<mapsto> JStr (SUCCESSFUL_UPLOAD_MESSAGE_TPL ''fa fa-paperclip'')]
         in case params (upload_id self) of
              None \<Rightarrow>
                upload_failed [] response_data
                  \<lparr>exc_class = KeyError, exc_message = Some (upload_id self)\<rparr>
            | Some (TextField text) \<Rightarrow>
                upload_failed [] response_data
                  \<lparr>exc_class = AttributeError, exc_message = Some NO_FILE_ATTRIBUTE\<rparr>
            | Some (FileField file_stream) \<Rightarrow>
                (case persist_and_submit_file target_activity file_stream w of
                   (events, Inl exception) \<Rightarrow> upload_failed events response_data exception
                 | (events, Inr uploaded) \<Rightarrow>
                     (let response_data' =
                            response_data(''submissions'' \<mapsto>
                              JDict [(submission_id uploaded, file_url uploaded)])
                      in case check_submissions_and_mark_complete w of
                           Some exception \<Rightarrow>
                             upload_failed (events @ [CheckSubmissions]) response_data' exception
                         | None \<Rightarrow>
                             (case get_new_stage_state_data w of
                                Inl exception \<Rightarrow>
                                  upload_failed (events @ [CheckSubmissions, GetNewStageState])
                                    response_data' exception
                              | Inr state \<Rightarrow>
                                  (events @ [CheckSubmissions, GetNewStageState],
                                   make_response
                                     (response_data'(''new_stage_states'' \<mapsto> JList [state]))
                                     0))))))"

primrec is_publish :: "event \<Rightarrow> bool" where
  "is_publish (SaveFile n) = False"
| "is_publish (Submit n) = False"
| "is_publish (Publish name data) = True"
| "is_publish (FireNotification s) = False"
| "is_publish CheckSubmissions = False"
| "is_publish GetNewStageState = False"
| "is_publish (LogException m) = False"
| "is_publish (LogWarn m) = False"

primrec is_notification :: "event \<Rightarrow> bool" where
  "is_notification (SaveFile n) = False"
| "is_notification (Submit n) = False"
| "is_notification (Publish name data) = False"
| "is_notification (FireNotification s) = True"
| "is_notification CheckSubmissions = False"
| "is_notification GetNewStageState = False"
| "is_notification (LogException m) = False"
| "is_notification (LogWarn m) = False"

subsection \<open>GroupProjectReviewQuestionXBlock\<close>

record review_question =
  question_id :: string
  title :: string
  assessment_title :: "string option"
  question_content :: string
  required :: bool
  grade :: bool
  single_line :: bool
  question_css_classes :: "string option"

text \<open>
  An element of \<^verbatim>\<open>ElementTree\<close>: its attributes, and everything else about it (tag,
  text, children), which \<^verbatim>\<open>render_content\<close> never touches. The parser
  \<^verbatim>\<open>ElementTree.fromstring\<close> and the serialiser \<^verbatim>\<open>outer_html\<close> are parameters;
  the parser returns \<open>None\<close> where it raises \<^verbatim>\<open>ParseError\<close>.
\<close>

record 'c element =
  attrib :: "string \<rightharpoonup> string"
  rest :: 'c

definition set_attr :: "'c element \<Rightarrow> string \<Rightarrow> string \<Rightarrow> 'c element" where
  "set_attr node k v = node\<lparr>attrib := (attrib node)(k \<mapsto> v)\<rparr>"

fun join :: "string \<Rightarrow> string list \<Rightarrow> string" where
  "join sep [] = []"
| "join sep [x] = x"
| "join sep (x # y # ys) = x @ sep @ join sep (y # ys)"

definition PARSE_MESSAGE_TPL :: string where
  "PARSE_MESSAGE_TPL =
     ''Exception when parsing question content for question {question_id}. Content is [{content}].''"

definition format_parse_message :: "string \<Rightarrow> string \<Rightarrow> string" where
  "format_parse_message qid content =
     ''Exception when parsing question content for question '' @ qid
     @ ''. Content is ['' @ content @ ''].''"

text \<open>
  \<^verbatim>\<open>render_content\<close>. In the handler of the parse error the formatted message is
  computed and dropped (\<^verbatim>\<open>message_tpl.format(...)\<close> is a statement of its own), and
  \<^verbatim>\<open>log.exception\<close> gets the template.
\<close>

definition render_content ::
  "(string \<Rightarrow> 'c element option) \<Rightarrow> ('c element \<Rightarrow> string) \<Rightarrow> review_question \<Rightarrow> stage
     \<Rightarrow> event list \<times> string" where
  "render_content fromstring outer_html self stage =
     (case fromstring (question_content self) of
        None \<Rightarrow>
          (let message_tpl = PARSE_MESSAGE_TPL;
               dropped = format_parse_message (question_id self) (question_content self)
           in ([LogException (Text message_tpl)], []))
      | Some parsed \<Rightarrow>
          (let answer_node = set_attr (set_attr parsed ''name'' (question_id self))
                               ''id'' (question_id self);
               answer_classes =
                 [''answer'']
                 @ (case attrib answer_node ''class'' of
                      Some current_class \<Rightarrow> if current_class \<noteq> [] then [current_class] else []
                    | None \<Rightarrow> [])
                 @ (if single_line self then [''side''] else []);
               answer_node' = (if is_closed stage
                               then set_attr answer_node ''disabled'' ''disabled''
                               else answer_node);
               answer_classes' = (if is_closed stage then answer_classes
                                  else answer_classes @ [''editable''])
           in ([], outer_html (set_attr answer_node' ''class'' (join '' '' answer_classes')))))"

subsection \<open>GroupProjectBaseFeedbackDisplayXBlock and its two subclasses\<close>

record feedback_display =
  display_question_id :: "string option"
  show_mean :: bool

record feedback_item =
  question :: string
  answer :: string

datatype ctxval = CBlock feedback_display | CStr string | CList "string list"

type_synonym render_context = "string \<rightharpoonup> ctxval"

text \<open>The lazy property \<^verbatim>\<open>question\<close> of the display block.\<close>

definition block_question ::
  "feedback_display \<Rightarrow> review_question list \<Rightarrow> pyexc + review_question option" where
  "block_question self activity_questions =
     (case filter (\<lambda>q. Some (question_id q) = display_question_id self) activity_questions of
        [] \<Rightarrow> Inr None
      | [q] \<Rightarrow> Inr (Some q)
      | _ \<Rightarrow> Inl \<lparr>exc_class = ValueError, exc_message = Some ''Question ID is not unique''\<rparr>)"

text \<open>
  \<^verbatim>\<open>get_feedback\<close> of both subclasses: the list the project API returned, filtered by
  the block's question id.
\<close>

definition get_feedback :: "feedback_display \<Rightarrow> feedback_item list \<Rightarrow> feedback_item list" where
  "get_feedback self all_feedback =
     filter (\<lambda>item. Some (question item) = display_question_id self) all_feedback"

text \<open>
  \<^verbatim>\<open>student_view\<close>, up to the render context the view builds. Django's
  \<^verbatim>\<open>html.escape\<close>, the helper \<^verbatim>\<open>mean\<close> of \<^verbatim>\<open>utils\<close> and the number format
  \<^verbatim>\<open>"{0:.1f}"\<close> are parameters. The view then merges the caller's context and hands the
  result to the template loader; the decorator around the view is not in the file either.
\<close>

definition student_view ::
  "(string \<Rightarrow> string) \<Rightarrow> (string list \<Rightarrow> pyexc + real) \<Rightarrow> (real \<Rightarrow> string)
     \<Rightarrow> feedback_display \<Rightarrow> review_question list \<Rightarrow> feedback_item list
     \<Rightarrow> event list \<times> (pyexc + render_context)" where
  "student_view escape mean_impl format_1f self activity_questions all_feedback =
     (case block_question self activity_questions of
        Inl e \<Rightarrow> ([], Inl e)
      | Inr None \<Rightarrow>
          ([], Inl \<lparr>exc_class = ValueError, exc_message = Some ''No question selected''\<rparr>)
      | Inr (Some q) \<Rightarrow>
          (let raw_feedback = get_feedback self all_feedback;
               feedback = map (\<lambda>item. escape (answer item)) raw_feedback;
               question_title =
                 (case assessment_title q of
                    Some t \<Rightarrow> if t \<noteq> [] then t else title q
                  | None \<Rightarrow> title q);
               render_context =
                 [''assessment'' \<mapsto> CBlock self,
                  ''question_title'' \<mapsto> CStr question_title,
                  ''feedback'' \<mapsto> CList feedback]
           in if show_mean self then
                (case mean_impl feedback of
                   Inr m \<Rightarrow> ([], Inr (render_context(''mean'' \<mapsto> CStr (format_1f m))))
                 | Inl exc \<Rightarrow>
                     if exc_class exc = ValueError
                     then ([LogWarn (Raised exc)], Inr (render_context(''mean'' \<mapsto> CStr ''N/A'')))
                     else ([], Inl exc))
              else ([], Inr render_context)))"

text \<open>
  Modelled from the spec: the helper \<^verbatim>\<open>mean\<close> of \<^verbatim>\<open>group_project_v2.utils\<close>, which
  the file imports and which is not among the sources. The spec: every answer is coerced
  to a number and the arithmetic mean is computed; any coercion failure, and the empty
  list (whose mean is undefined, not zero), ends in the placeholder. The view shows the
  placeholder only for a \<^verbatim>\<open>ValueError\<close>, so that is what the model raises in both
  cases. The coercion \<^verbatim>\<open>float\<close> is a parameter, \<open>None\<close> where it raises.
\<close>

fun coerce_all :: "(string \<Rightarrow> real option) \<Rightarrow> string list \<Rightarrow> real list option" where
  "coerce_all to_number [] = Some []"
| "coerce_all to_number (x # xs) =
     (case to_number x of
        None \<Rightarrow> None
      | Some v \<Rightarrow> map_option ((#) v) (coerce_all to_number xs))"

definition mean :: "(string \<Rightarrow> real option) \<Rightarrow> string list \<Rightarrow> pyexc + real" where
  "mean to_number value_array =
     (case coerce_all to_number value_array of
        None \<Rightarrow> Inl \<lparr>exc_class = ValueError, exc_message = None\<rparr>
      | Some [] \<Rightarrow> Inl \<lparr>exc_class = ValueError, exc_message = None\<rparr>
      | Some (v # vs) \<Rightarrow> Inr (sum_list (v # vs) / real (length (v # vs))))"

text \<open>
  Django's \<^verbatim>\<open>html.escape\<close> as its documentation gives it: the five characters
  \<^verbatim>\<open>& < > " '\<close> are replaced by entities.
\<close>

definition escape_char :: "char \<Rightarrow> string" where
  "escape_char c =
     (if c = CHR ''&'' then ''&amp;''
      else if c = CHR ''<'' then ''&lt;''
      else if c = CHR ''>'' then ''&gt;''
      else if c = CHR 0x22 then ''&quot;''
      else if c = CHR 0x27 then ''&#39;''
      else [c])"

definition html_escape :: "string \<Rightarrow> string" where
  "html_escape s = concat (map escape_char s)"

text \<open>
  Python's \<^verbatim>\<open>float\<close> on a text, as far as the view depends on it: a text with one of
  the five characters that \<^verbatim>\<open>html.escape\<close> replaces is no number, and on every other
  text the parameter decides, \<open>None\<close> where \<^verbatim>\<open>float\<close> raises its
  \<^verbatim>\<open>ValueError\<close>.
\<close>

definition html_special :: "char \<Rightarrow> bool" where
  "html_special c \<longleftrightarrow>
     c = CHR ''&'' \<or> c = CHR ''<'' \<or> c = CHR ''>'' \<or> c = CHR 0x22 \<or> c = CHR 0x27"

definition py_float :: "(string \<Rightarrow> real option) \<Rightarrow> string \<Rightarrow> real option" where
  "py_float parse s = (if list_ex html_special s then None else parse s)"

text \<open>
  Python's \<^verbatim>\<open>"{0:.1f}".format\<close> on a finite number, here a real: the sign, the digits
  before the point and one digit after it, of the nearest multiple of one tenth, the even
  one of two that are equally near. A real that is a binary float is printed as Python
  prints that float.
\<close>

definition digit_char :: "nat \<Rightarrow> char" where
  "digit_char d = ''0123456789'' ! d"

function nat_digits :: "nat \<Rightarrow> string" where
  "nat_digits n =
     (if n < 10 then [digit_char n] else nat_digits (n div 10) @ [digit_char (n mod 10)])"
  by pat_completeness auto
termination
  by (relation "measure (\<lambda>n. n)") auto

declare nat_digits.simps [simp del]

definition round_half_even :: "real \<Rightarrow> int" where
  "round_half_even x =
     (let f = \<lfloor>x\<rfloor>; d = x - of_int f
      in if d < 1 / 2 then f
         else if 1 / 2 < d then f + 1
         else if even f then f else f + 1)"

definition format_1f :: "real \<Rightarrow> string" where
  "format_1f x =
     (let tenths = nat (round_half_even (\<bar>x\<bar> * 10))
      in (if x < 0 then ''-'' else []) @ nat_digits (tenths div 10) @ ''.''
         @ [digit_char (tenths mod 10)])"

subsection \<open>Concrete values for the examples\<close>

definition example_block :: submission_block where
  "example_block = \<lparr>display_name = ''Report'', description = ''Final report'', upload_id = ''doc1''\<rparr>"

definition example_activity :: activity where
  "example_activity = \<lparr>user_id = 7, workgroup_id = 3, course_id = ''course'', content_id = ''act1''\<rparr>"

definition example_stage :: "bool \<Rightarrow> bool \<Rightarrow> bool \<Rightarrow> stage" where
  "example_stage available opened member =
     \<lparr>available_now = available, is_open = opened, is_closed = (opened \<and> \<not> available),
      is_group_member = member, STAGE_ACTION = ''upload submission''\<rparr>"

definition example_request :: request where
  "example_request = [''doc1'' \<mapsto> FileField ''f.pdf'']"

definition example_env :: env where
  "example_env =
     \<lparr>save_file = None, submit = Inr (''s1'', ''http://x/f.pdf''), publish = None,
      notifications_service = Some NotificationsService, fire_file_upload_notification = None,
      check_submissions_and_mark_complete = None, get_new_stage_state_data = Inr ''completed''\<rparr>"

definition example_error :: "exc_class \<Rightarrow> string option \<Rightarrow> pyexc" where
  "example_error c m = \<lparr>exc_class = c, exc_message = m\<rparr>"

definition example_question :: "string \<Rightarrow> review_question" where
  "example_question content =
     \<lparr>question_id = ''q1'', title = ''Score'', assessment_title = None,
      question_content = content, required = False, grade = True, single_line = False,
      question_css_classes = None\<rparr>"

definition example_fromstring :: "string \<Rightarrow> string element option" where
  "example_fromstring s =
     (if s = ''<input/>'' then Some \<lparr>attrib = Map.empty, rest = ''input''\<rparr> else None)"

definition example_display :: "bool \<Rightarrow> feedback_display" where
  "example_display want_mean = \<lparr>display_question_id = Some ''q1'', show_mean = want_mean\<rparr>"

definition example_float :: "string \<Rightarrow> real option" where
  "example_float s =
     (if s = ''1'' then Some 1 else if s = ''3'' then Some 3 else if s = ''5'' then Some 5
      else None)"

definition example_format_1f :: "real \<Rightarrow> string" where
  "example_format_1f x = (if x = 4 then ''4.0'' else if x = 0 then ''0.0'' else ''?'')"

section \<open>Properties\<close>

lemmas ex = example_block_def example_activity_def example_stage_def example_request_def
  example_env_def example_error_def

lemmas exv = example_question_def example_fromstring_def example_display_def example_float_def
  example_format_1f_def

subsection \<open>The submission block\<close>

text \<open>
  C6. For every submission map, \<^verbatim>\<open>get_upload\<close> returns a record exactly when the
  block's upload id is a key of the map; the record's location is the document url of
  that entry; with the key absent it returns nothing.
\<close>

theorem get_upload_iff_key_present:
  "(get_upload bdf fd self m \<noteq> None \<longleftrightarrow> upload_id self \<in> dom m)
   \<and> (\<forall>d. m (upload_id self) = Some d \<longrightarrow>
         (\<exists>u. get_upload bdf fd self m = Some u \<and> location u = document_url d))
   \<and> (m (upload_id self) = None \<longrightarrow> get_upload bdf fd self m = None)"
  by (auto simp: get_upload_def split: option.splits)

theorem get_upload_iff_key_present_witness:
  "(let m = [''doc1'' \<mapsto> \<lparr>document_url = ''http://x/f.pdf'', document_filename = ''f.pdf'',
                          modified = ''T'', user_details = Some ''U''\<rparr>];
        doc1 = \<lparr>display_name = ''a'', description = ''b'', upload_id = ''doc1''\<rparr>;
        doc2 = \<lparr>display_name = ''a'', description = ''b'', upload_id = ''doc2''\<rparr>
    in m (upload_id doc1) \<noteq> None
       \<and> (\<exists>u. get_upload (\<lambda>s. s) (\<lambda>s. s) doc1 m = Some u \<and> location u = ''http://x/f.pdf'')
       \<and> m (upload_id doc2) = None
       \<and> get_upload (\<lambda>s. s) (\<lambda>s. s) doc2 m = None)"
  using get_upload_iff_key_present
          [of "\<lambda>s. s" "\<lambda>s. s"
              "\<lparr>display_name = ''a'', description = ''b'', upload_id = ''doc1''\<rparr>"
              "[''doc1'' \<mapsto> \<lparr>document_url = ''http://x/f.pdf'', document_filename = ''f.pdf'',
                          modified = ''T'', user_details = Some ''U''\<rparr>]"]
        get_upload_iff_key_present
          [of "\<lambda>s. s" "\<lambda>s. s"
              "\<lparr>display_name = ''a'', description = ''b'', upload_id = ''doc2''\<rparr>"
              "[''doc1'' \<mapsto> \<lparr>document_url = ''http://x/f.pdf'', document_filename = ''f.pdf'',
                          modified = ''T'', user_details = Some ''U''\<rparr>]"]
  by (simp add: Let_def)

text \<open>
  C1, as the code has it. The publish call sits in the same \<^verbatim>\<open>try\<close> block as
  \<^verbatim>\<open>submit()\<close>: when the file was saved, the uploaded file is returned exactly when
  recording and publishing succeed and the notification, if the service is there, does
  not raise. A failing publish call is re-raised with the message of a recording failure,
  after the three calls made so far and before any notification.
\<close>

theorem publish_failure_fails_submission:
  assumes "save_file w = None"
  shows "((\<exists>uploaded. snd (persist_and_submit_file a f w) = Inr uploaded) \<longleftrightarrow>
            (\<exists>p. submit w = Inr p) \<and> publish w = None
            \<and> (notifications_service w = None \<or> fire_file_upload_notification w = None))
         \<and> (\<forall>sid url e. submit w = Inr (sid, url) \<and> publish w = Some e \<longrightarrow>
              persist_and_submit_file a f w =
                ([SaveFile f, Submit f,
                  Publish SUBMISSION_RECEIVED_EVENT
                    (submission_payload a \<lparr>uploaded_name = f, submission_id = sid, file_url = url\<rparr>)],
                 Inl (e\<lparr>exc_message :=
                        Some (''Error recording file information '' @ f @ '' - ''
                              @ original_message e)\<rparr>)))"
  using assms
  by (auto simp: persist_and_submit_file_def recording_error_def Let_def
           split: option.splits sum.splits prod.splits)

theorem publish_failure_fails_submission_witness:
  "save_file (example_env\<lparr>publish := Some (example_error (ApiError 503) None)\<rparr>) = None
   \<and> persist_and_submit_file example_activity ''f.pdf''
        (example_env\<lparr>publish := Some (example_error (ApiError 503) None)\<rparr>)
      = ([SaveFile ''f.pdf'', Submit ''f.pdf'',
          Publish ''activity.received_submission''
            [(''submission_id'', PStr ''s1''), (''filename'', PStr ''f.pdf''),
             (''content_id'', PStr ''act1''), (''group_id'', PInt 3), (''user_id'', PInt 7)]],
         Inl \<lparr>exc_class = ApiError 503,
              exc_message = Some ''Error recording file information f.pdf - ''\<rparr>)"
proof -
  let ?w = "example_env\<lparr>publish := Some (example_error (ApiError 503) None)\<rparr>"
  have s: "save_file ?w = None" by (simp add: ex)
  have "submit ?w = Inr (''s1'', ''http://x/f.pdf'')
        \<and> publish ?w = Some (example_error (ApiError 503) None)"
    by (simp add: ex)
  then have "persist_and_submit_file example_activity ''f.pdf'' ?w =
                ([SaveFile ''f.pdf'', Submit ''f.pdf'',
                  Publish SUBMISSION_RECEIVED_EVENT
                    (submission_payload example_activity
                       \<lparr>uploaded_name = ''f.pdf'', submission_id = ''s1'',
                        file_url = ''http://x/f.pdf''\<rparr>)],
                 Inl ((example_error (ApiError 503) None)\<lparr>exc_message :=
                        Some (''Error recording file information '' @ ''f.pdf'' @ '' - ''
                              @ original_message (example_error (ApiError 503) None))\<rparr>))"
    using publish_failure_fails_submission [OF s, of example_activity "''f.pdf''"] by blast
  with s show ?thesis
    by (simp add: ex SUBMISSION_RECEIVED_EVENT_def submission_payload_def original_message_def)
qed

text \<open>
  C1 as stated fails: the file is saved and recorded, the publish call raises, and
  \<^verbatim>\<open>persist_and_submit_file\<close> raises instead of returning the uploaded file.
\<close>

theorem publish_failure_counterexample:
  "save_file (example_env\<lparr>publish := Some (example_error OtherError (Some ''sink down''))\<rparr>) = None
   \<and> snd (persist_and_submit_file example_activity ''f.pdf''
            (example_env\<lparr>publish := Some (example_error OtherError (Some ''sink down''))\<rparr>))
      = Inl \<lparr>exc_class = OtherError,
             exc_message = Some ''Error recording file information f.pdf - sink down''\<rparr>"
  by (simp add: ex persist_and_submit_file_def recording_error_def original_message_def)

text \<open>
  C8. A call of \<^verbatim>\<open>persist_and_submit_file\<close> that returns gives the uploaded file with
  the submission id and file url that \<^verbatim>\<open>submit()\<close> left on it, has made exactly one
  publish call, whose payload has the five keys, and has fired the notification exactly
  when the runtime has the notifications service. It does return whenever saving,
  recording and publishing succeed and the service is absent or its notification does not
  raise.
\<close>

theorem successful_relay:
  "(persist_and_submit_file a f w = (events, Inr uploaded) \<longrightarrow>
      (\<exists>sid url. submit w = Inr (sid, url)
         \<and> uploaded = \<lparr>uploaded_name = f, submission_id = sid, file_url = url\<rparr>)
      \<and> filter is_publish events
          = [Publish SUBMISSION_RECEIVED_EVENT (submission_payload a uploaded)]
      \<and> map fst (submission_payload a uploaded)
          = [''submission_id'', ''filename'', ''content_id'', ''group_id'', ''user_id'']
      \<and> (filter is_notification events \<noteq> [] \<longleftrightarrow> notifications_service w \<noteq> None))
   \<and> (save_file w = None \<and> (\<exists>p. submit w = Inr p) \<and> publish w = None
        \<and> (notifications_service w = None \<or> fire_file_upload_notification w = None)
      \<longrightarrow> (\<exists>events uploaded. persist_and_submit_file a f w = (events, Inr uploaded)))"
  by (auto simp: persist_and_submit_file_def submission_payload_def Let_def
           split: option.splits sum.splits prod.splits)

theorem successful_relay_witness:
  "persist_and_submit_file example_activity ''f.pdf'' example_env
     = ([SaveFile ''f.pdf'', Submit ''f.pdf'',
         Publish ''activity.received_submission''
           [(''submission_id'', PStr ''s1''), (''filename'', PStr ''f.pdf''),
            (''content_id'', PStr ''act1''), (''group_id'', PInt 3), (''user_id'', PInt 7)],
         FireNotification NotificationsService],
        Inr \<lparr>uploaded_name = ''f.pdf'', submission_id = ''s1'', file_url = ''http://x/f.pdf''\<rparr>)
   \<and> notifications_service example_env \<noteq> None
   \<and> (\<exists>events uploaded.
         persist_and_submit_file example_activity ''f.pdf''
           (example_env\<lparr>notifications_service := None\<rparr>) = (events, Inr uploaded)
         \<and> filter is_publish events
             = [Publish SUBMISSION_RECEIVED_EVENT (submission_payload example_activity uploaded)]
         \<and> filter is_notification events = [])"
proof -
  let ?events = "[SaveFile ''f.pdf'', Submit ''f.pdf'',
         Publish ''activity.received_submission''
           [(''submission_id'', PStr ''s1''), (''filename'', PStr ''f.pdf''),
            (''content_id'', PStr ''act1''), (''group_id'', PInt 3), (''user_id'', PInt 7)],
         FireNotification NotificationsService]"
  let ?uploaded = "\<lparr>uploaded_name = ''f.pdf'', submission_id = ''s1'',
                    file_url = ''http://x/f.pdf''\<rparr>"
  let ?w = "example_env\<lparr>notifications_service := None\<rparr>"
  have p: "persist_and_submit_file example_activity ''f.pdf'' example_env
             = (?events, Inr ?uploaded)"
    by (simp add: ex persist_and_submit_file_def SUBMISSION_RECEIVED_EVENT_def
                  submission_payload_def)
  have n: "notifications_service example_env \<noteq> None"
    using successful_relay [of example_activity "''f.pdf''" example_env ?events ?uploaded] p
    by simp
  have "save_file ?w = None \<and> (\<exists>p. submit ?w = Inr p) \<and> publish ?w = None
        \<and> (notifications_service ?w = None \<or> fire_file_upload_notification ?w = None)"
    by (simp add: ex)
  then obtain events uploaded
    where q: "persist_and_submit_file example_activity ''f.pdf'' ?w = (events, Inr uploaded)"
    using successful_relay [of example_activity "''f.pdf''" ?w "[]" ?uploaded] by blast
  have "filter is_publish events
             = [Publish SUBMISSION_RECEIVED_EVENT (submission_payload example_activity uploaded)]
        \<and> (filter is_notification events \<noteq> [] \<longleftrightarrow> notifications_service ?w \<noteq> None)"
    using successful_relay [of example_activity "''f.pdf''" ?w events uploaded] q by blast
  then have "filter is_publish events
             = [Publish SUBMISSION_RECEIVED_EVENT (submission_payload example_activity uploaded)]
        \<and> filter is_notification events = []"
    by (simp add: ex)
  with p n q show ?thesis by blast
qed

subsection \<open>The upload handler\<close>

lemma persist_starts_with_save:
  "SaveFile f \<in> set (fst (persist_and_submit_file a f w))"
  by (simp add: persist_and_submit_file_def Let_def split: option.splits sum.splits prod.splits)

lemma make_response_zero:
  "make_response rd 0 = Inr \<lparr>body = rd, status_code = 200\<rparr>"
  by (simp add: make_response_def)

lemma make_response_accepted:
  "100 \<le> code \<Longrightarrow> code \<le> 599 \<Longrightarrow>
     make_response rd code = Inr \<lparr>body = rd, status_code = code\<rparr>"
  by (simp add: make_response_def)

lemma make_response_rejected:
  "code \<noteq> 0 \<Longrightarrow> \<not> (100 \<le> code \<and> code \<le> 599) \<Longrightarrow>
     make_response rd code = Inl \<lparr>exc_class = KeyError, exc_message = None\<rparr>"
  by (simp add: make_response_def)

lemma failed_body_plain:
  "[''title'' \<mapsto> t, ''message'' \<mapsto> m](''title'' \<mapsto> t', ''message'' \<mapsto> m')
     = [''title'' \<mapsto> t', ''message'' \<mapsto> m']"
  by (rule ext) simp

lemma failed_body_submissions:
  "[''title'' \<mapsto> t, ''message'' \<mapsto> m, ''submissions'' \<mapsto> s]
       (''title'' \<mapsto> t', ''message'' \<mapsto> m')
     = [''title'' \<mapsto> t', ''message'' \<mapsto> m', ''submissions'' \<mapsto> s]"
  by (rule ext) simp

lemma upload_failed_plain:
  "upload_failed events [''title'' \<mapsto> t, ''message'' \<mapsto> m] e
     = (events @ [LogException (Raised e)],
        make_response
          [''title'' \<mapsto> JStr FAILED_UPLOAD_TITLE,
           ''message'' \<mapsto> JStr (''Error uploading file: '' @ error_message_of e)]
          (failure_code_of e))"
  unfolding upload_failed_def failed_body_plain FAILED_UPLOAD_MESSAGE_TPL_def ..

lemma upload_failed_submissions:
  "upload_failed events [''title'' \<mapsto> t, ''message'' \<mapsto> m, ''submissions'' \<mapsto> s] e
     = (events @ [LogException (Raised e)],
        make_response
          [''title'' \<mapsto> JStr FAILED_UPLOAD_TITLE,
           ''message'' \<mapsto> JStr (''Error uploading file: '' @ error_message_of e),
           ''submissions'' \<mapsto> s]
          (failure_code_of e))"
  unfolding upload_failed_def failed_body_submissions FAILED_UPLOAD_MESSAGE_TPL_def ..

lemma upload_denied_not_available:
  "\<not> available_now stage \<Longrightarrow>
     upload_submission self stage a params w =
       ([], Inr \<lparr>body = [''result'' \<mapsto> JStr ''error'',
                          ''message'' \<mapsto> JStr (if \<not> is_open stage
                                                 then STAGE_NOT_OPEN_TEMPLATE (STAGE_ACTION stage)
                                                 else STAGE_CLOSED_TEMPLATE (STAGE_ACTION stage))],
                  status_code = 422\<rparr>)"
  by (simp add: upload_submission_def make_response_def)

lemma upload_denied_not_member:
  "available_now stage \<Longrightarrow> \<not> is_group_member stage \<Longrightarrow>
     upload_submission self stage a params w =
       ([], Inr \<lparr>body = [''result'' \<mapsto> JStr ''error'',
                          ''message'' \<mapsto> JStr ''Only group members can upload files''],
                  status_code = 403\<rparr>)"
  by (simp add: upload_submission_def make_response_def)

lemma upload_admitted_no_field:
  "available_now stage \<Longrightarrow> is_group_member stage \<Longrightarrow> params (upload_id self) = None \<Longrightarrow>
     upload_submission self stage a params w =
       ([LogException (Raised \<lparr>exc_class = KeyError, exc_message = Some (upload_id self)\<rparr>)],
        Inr \<lparr>body = [''title'' \<mapsto> JStr FAILED_UPLOAD_TITLE,
                      ''message'' \<mapsto> JStr (''Error uploading file: '' @ upload_id self)],
             status_code = 500\<rparr>)"
  by (simp add: upload_submission_def upload_failed_plain make_response_def failure_code_of_def
                error_message_of_def)

lemma upload_admitted_text_field:
  "available_now stage \<Longrightarrow> is_group_member stage \<Longrightarrow>
   params (upload_id self) = Some (TextField t) \<Longrightarrow>
     upload_submission self stage a params w =
       ([LogException (Raised \<lparr>exc_class = AttributeError,
                                exc_message = Some NO_FILE_ATTRIBUTE\<rparr>)],
        Inr \<lparr>body = [''title'' \<mapsto> JStr FAILED_UPLOAD_TITLE,
                      ''message'' \<mapsto> JStr (''Error uploading file: '' @ NO_FILE_ATTRIBUTE)],
             status_code = 500\<rparr>)"
  by (simp add: upload_submission_def upload_failed_plain make_response_def failure_code_of_def
                error_message_of_def)

lemma upload_admitted_relay_failed:
  "available_now stage \<Longrightarrow> is_group_member stage \<Longrightarrow>
   params (upload_id self) = Some (FileField f) \<Longrightarrow>
   persist_and_submit_file a f w = (events, Inl e) \<Longrightarrow>
     upload_submission self stage a params w =
       (events @ [LogException (Raised e)],
        make_response
          [''title'' \<mapsto> JStr FAILED_UPLOAD_TITLE,
           ''message'' \<mapsto> JStr (''Error uploading file: '' @ error_message_of e)]
          (failure_code_of e))"
  by (simp add: upload_submission_def upload_failed_plain)

lemma upload_admitted_check_failed:
  "available_now stage \<Longrightarrow> is_group_member stage \<Longrightarrow>
   params (upload_id self) = Some (FileField f) \<Longrightarrow>
   persist_and_submit_file a f w = (events, Inr uploaded) \<Longrightarrow>
   check_submissions_and_mark_complete w = Some e \<Longrightarrow>
     upload_submission self stage a params w =
       (events @ [CheckSubmissions, LogException (Raised e)],
        make_response
          [''title'' \<mapsto> JStr FAILED_UPLOAD_TITLE,
           ''message'' \<mapsto> JStr (''Error uploading file: '' @ error_message_of e),
           ''submissions'' \<mapsto> JDict [(submission_id uploaded, file_url uploaded)]]
          (failure_code_of e))"
  by (simp add: upload_submission_def upload_failed_submissions)

lemma upload_admitted_state_failed:
  "available_now stage \<Longrightarrow> is_group_member stage \<Longrightarrow>
   params (upload_id self) = Some (FileField f) \<Longrightarrow>
   persist_and_submit_file a f w = (events, Inr uploaded) \<Longrightarrow>
   check_submissions_and_mark_complete w = None \<Longrightarrow>
   get_new_stage_state_data w = Inl e \<Longrightarrow>
     upload_submission self stage a params w =
       (events @ [CheckSubmissions, GetNewStageState, LogException (Raised e)],
        make_response
          [''title'' \<mapsto> JStr FAILED_UPLOAD_TITLE,
           ''message'' \<mapsto> JStr (''Error uploading file: '' @ error_message_of e),
           ''submissions'' \<mapsto> JDict [(submission_id uploaded, file_url uploaded)]]
          (failure_code_of e))"
  by (simp add: upload_submission_def upload_failed_submissions)

lemma upload_admitted_complete:
  "available_now stage \<Longrightarrow> is_group_member stage \<Longrightarrow>
   params (upload_id self) = Some (FileField f) \<Longrightarrow>
   persist_and_submit_file a f w = (events, Inr uploaded) \<Longrightarrow>
   check_submissions_and_mark_complete w = None \<Longrightarrow>
   get_new_stage_state_data w = Inr state \<Longrightarrow>
     upload_submission self stage a params w =
       (events @ [CheckSubmissions, GetNewStageState],
        Inr \<lparr>body = [''title'' \<mapsto> JStr SUCCESSFUL_UPLOAD_TITLE,
                      ''message'' \<mapsto> JStr (SUCCESSFUL_UPLOAD_MESSAGE_TPL ''fa fa-paperclip''),
                      ''submissions'' \<mapsto> JDict [(submission_id uploaded, file_url uploaded)],
                      ''new_stage_states'' \<mapsto> JList [state]],
             status_code = 200\<rparr>)"
  by (simp add: upload_submission_def make_response_def)

lemma upload_admitted_events:
  assumes "available_now stage" "is_group_member stage"
    "params (upload_id self) = Some (FileField f)"
  shows "\<exists>rest. fst (upload_submission self stage a params w)
           = fst (persist_and_submit_file a f w) @ rest"
proof -
  obtain events r where p: "persist_and_submit_file a f w = (events, r)"
    by (cases "persist_and_submit_file a f w")
  show ?thesis
  proof (cases r)
    case (Inl e)
    then show ?thesis
      using assms p by (simp add: upload_admitted_relay_failed)
  next
    case (Inr uploaded)
    show ?thesis
    proof (cases "check_submissions_and_mark_complete w")
      case (Some e)
      then show ?thesis
        using assms p Inr by (simp add: upload_admitted_check_failed)
    next
      case None
      show ?thesis
      proof (cases "get_new_stage_state_data w")
        case (Inl e)
        then show ?thesis
          using assms p Inr None by (simp add: upload_admitted_state_failed)
      next
        case (Inr state)
        then show ?thesis
          using assms p \<open>r = Inr uploaded\<close> None by (simp add: upload_admitted_complete)
      qed
    qed
  qed
qed

lemma failure_status:
  "((\<forall>code. exc_class e \<noteq> ApiError code) \<longrightarrow>
      make_response rd (failure_code_of e) = Inr \<lparr>body = rd, status_code = 500\<rparr>)
   \<and> (\<forall>code. exc_class e = ApiError code \<and> 100 \<le> code \<and> code \<le> 599 \<longrightarrow>
        make_response rd (failure_code_of e) = Inr \<lparr>body = rd, status_code = code\<rparr>)
   \<and> (exc_class e = ApiError 0 \<longrightarrow>
        make_response rd (failure_code_of e) = Inr \<lparr>body = rd, status_code = 200\<rparr>)
   \<and> (\<forall>code. exc_class e = ApiError code \<and> code \<noteq> 0 \<and> \<not> (100 \<le> code \<and> code \<le> 599) \<longrightarrow>
        make_response rd (failure_code_of e)
          = Inl \<lparr>exc_class = KeyError, exc_message = None\<rparr>)"
  by (cases "exc_class e") (simp_all add: make_response_def failure_code_of_def)

lemma example_relay_ok:
  "save_file w = None \<Longrightarrow> submit w = Inr (''s1'', ''http://x/f.pdf'') \<Longrightarrow> publish w = None \<Longrightarrow>
   notifications_service w = Some NotificationsService \<Longrightarrow>
   fire_file_upload_notification w = None \<Longrightarrow>
     persist_and_submit_file example_activity ''f.pdf'' w
       = ([SaveFile ''f.pdf'', Submit ''f.pdf'',
           Publish ''activity.received_submission''
             [(''submission_id'', PStr ''s1''), (''filename'', PStr ''f.pdf''),
              (''content_id'', PStr ''act1''), (''group_id'', PInt 3), (''user_id'', PInt 7)],
           FireNotification NotificationsService],
          Inr \<lparr>uploaded_name = ''f.pdf'', submission_id = ''s1'',
                file_url = ''http://x/f.pdf''\<rparr>)"
  by (simp add: persist_and_submit_file_def SUBMISSION_RECEIVED_EVENT_def submission_payload_def
                example_activity_def)


lemma example_admitted:
  "available_now (example_stage True True True)"
  "is_group_member (example_stage True True True)"
  "example_request (upload_id example_block) = Some (FileField ''f.pdf'')"
  by (simp_all add: ex)

text \<open>
  C5, as the code has it. A stage that is not available now is answered with status 422
  and the \<^verbatim>\<open>not yet opened\<close> message when it is not open, the \<^verbatim>\<open>closed\<close> message
  otherwise; an available stage and a requester outside the group with status 403; both
  without a single call made. The relay saves a file exactly when the stage is available,
  the requester is a group member and the request carries a file under the block's upload
  id. An admitted request without that field, or with a text value there, is answered
  with the failure title and status 500 after the exception is logged, and the relay is
  not called.
\<close>

theorem upload_admission:
  "(\<not> available_now stage \<longrightarrow>
      upload_submission self stage a params w =
        ([], Inr \<lparr>body = [''result'' \<mapsto> JStr ''error'',
                           ''message'' \<mapsto> JStr (if \<not> is_open stage
                                                  then STAGE_NOT_OPEN_TEMPLATE (STAGE_ACTION stage)
                                                  else STAGE_CLOSED_TEMPLATE (STAGE_ACTION stage))],
                   status_code = 422\<rparr>))
   \<and> (available_now stage \<and> \<not> is_group_member stage \<longrightarrow>
      upload_submission self stage a params w =
        ([], Inr \<lparr>body = [''result'' \<mapsto> JStr ''error'',
                           ''message'' \<mapsto> JStr ''Only group members can upload files''],
                   status_code = 403\<rparr>))
   \<and> ((\<exists>f. SaveFile f \<in> set (fst (upload_submission self stage a params w)))
        \<longleftrightarrow> available_now stage \<and> is_group_member stage
            \<and> (\<exists>f. params (upload_id self) = Some (FileField f)))
   \<and> (available_now stage \<and> is_group_member stage \<and> params (upload_id self) = None \<longrightarrow>
      upload_submission self stage a params w =
        ([LogException (Raised \<lparr>exc_class = KeyError, exc_message = Some (upload_id self)\<rparr>)],
         Inr \<lparr>body = [''title'' \<mapsto> JStr FAILED_UPLOAD_TITLE,
                       ''message'' \<mapsto> JStr (''Error uploading file: '' @ upload_id self)],
              status_code = 500\<rparr>))
   \<and> (\<forall>t. available_now stage \<and> is_group_member stage
           \<and> params (upload_id self) = Some (TextField t) \<longrightarrow>
      upload_submission self stage a params w =
        ([LogException (Raised \<lparr>exc_class = AttributeError,
                                 exc_message = Some NO_FILE_ATTRIBUTE\<rparr>)],
         Inr \<lparr>body = [''title'' \<mapsto> JStr FAILED_UPLOAD_TITLE,
                       ''message'' \<mapsto> JStr (''Error uploading file: '' @ NO_FILE_ATTRIBUTE)],
              status_code = 500\<rparr>))"
proof (intro conjI impI allI)
  assume "\<not> available_now stage"
  then show "upload_submission self stage a params w =
        ([], Inr \<lparr>body = [''result'' \<mapsto> JStr ''error'',
                           ''message'' \<mapsto> JStr (if \<not> is_open stage
                                                  then STAGE_NOT_OPEN_TEMPLATE (STAGE_ACTION stage)
                                                  else STAGE_CLOSED_TEMPLATE (STAGE_ACTION stage))],
                   status_code = 422\<rparr>)"
    by (rule upload_denied_not_available)
next
  assume "available_now stage \<and> \<not> is_group_member stage"
  then show "upload_submission self stage a params w =
        ([], Inr \<lparr>body = [''result'' \<mapsto> JStr ''error'',
                           ''message'' \<mapsto> JStr ''Only group members can upload files''],
                   status_code = 403\<rparr>)"
    by (simp add: upload_denied_not_member)
next
  show "(\<exists>f. SaveFile f \<in> set (fst (upload_submission self stage a params w)))
        \<longleftrightarrow> available_now stage \<and> is_group_member stage
            \<and> (\<exists>f. params (upload_id self) = Some (FileField f))"
  proof (cases "available_now stage \<and> is_group_member stage")
    case False
    then show ?thesis
      by (cases "available_now stage")
         (auto simp: upload_denied_not_available upload_denied_not_member)
  next
    case True
    show ?thesis
    proof (cases "params (upload_id self)")
      case None
      with True show ?thesis
        by (simp add: upload_admitted_no_field)
    next
      case (Some fld)
      show ?thesis
      proof (cases fld)
        case (TextField t)
        with True Some show ?thesis
          by (simp add: upload_admitted_text_field)
      next
        case (FileField f)
        with Some have p: "params (upload_id self) = Some (FileField f)" by simp
        obtain rest where "fst (upload_submission self stage a params w)
             = fst (persist_and_submit_file a f w) @ rest"
          using upload_admitted_events [of stage params self f a w] True p by blast
        then have "SaveFile f \<in> set (fst (upload_submission self stage a params w))"
          using persist_starts_with_save [of f a w] by simp
        with True p show ?thesis by blast
      qed
    qed
  qed
next
  assume "available_now stage \<and> is_group_member stage \<and> params (upload_id self) = None"
  then show "upload_submission self stage a params w =
        ([LogException (Raised \<lparr>exc_class = KeyError, exc_message = Some (upload_id self)\<rparr>)],
         Inr \<lparr>body = [''title'' \<mapsto> JStr FAILED_UPLOAD_TITLE,
                       ''message'' \<mapsto> JStr (''Error uploading file: '' @ upload_id self)],
              status_code = 500\<rparr>)"
    by (simp add: upload_admitted_no_field)
next
  fix t
  assume "available_now stage \<and> is_group_member stage
           \<and> params (upload_id self) = Some (TextField t)"
  then show "upload_submission self stage a params w =
        ([LogException (Raised \<lparr>exc_class = AttributeError,
                                 exc_message = Some NO_FILE_ATTRIBUTE\<rparr>)],
         Inr \<lparr>body = [''title'' \<mapsto> JStr FAILED_UPLOAD_TITLE,
                       ''message'' \<mapsto> JStr (''Error uploading file: '' @ NO_FILE_ATTRIBUTE)],
              status_code = 500\<rparr>)"
    by (simp add: upload_admitted_text_field)
qed

theorem upload_admission_witness:
  "upload_submission example_block (example_stage False False True) example_activity
       example_request example_env
     = ([], Inr \<lparr>body = [''result'' \<mapsto> JStr ''error'',
                     ''message'' \<mapsto> JStr ''Can't upload submission as stage is not yet opened.''],
             status_code = 422\<rparr>)
   \<and> upload_submission example_block (example_stage False True True) example_activity
       example_request example_env
     = ([], Inr \<lparr>body = [''result'' \<mapsto> JStr ''error'',
                     ''message'' \<mapsto> JStr ''Can't upload submission as stage is closed.''],
             status_code = 422\<rparr>)
   \<and> upload_submission example_block (example_stage True True False) example_activity
       example_request example_env
     = ([], Inr \<lparr>body = [''result'' \<mapsto> JStr ''error'',
                     ''message'' \<mapsto> JStr ''Only group members can upload files''],
             status_code = 403\<rparr>)
   \<and> (\<exists>f. SaveFile f \<in> set (fst (upload_submission example_block (example_stage True True True)
                                     example_activity example_request example_env)))
   \<and> upload_submission example_block (example_stage True True True) example_activity
       Map.empty example_env
     = ([LogException (Raised \<lparr>exc_class = KeyError, exc_message = Some ''doc1''\<rparr>)],
        Inr \<lparr>body = [''title'' \<mapsto> JStr ''Upload failed.'',
                      ''message'' \<mapsto> JStr ''Error uploading file: doc1''],
             status_code = 500\<rparr>)
   \<and> upload_submission example_block (example_stage True True True) example_activity
       [''doc1'' \<mapsto> TextField ''report''] example_env
     = ([LogException (Raised \<lparr>exc_class = AttributeError,
                                exc_message = Some NO_FILE_ATTRIBUTE\<rparr>)],
        Inr \<lparr>body = [''title'' \<mapsto> JStr ''Upload failed.'',
                      ''message'' \<mapsto> JStr (''Error uploading file: '' @ NO_FILE_ATTRIBUTE)],
             status_code = 500\<rparr>)"
  using upload_admission [where stage = "example_stage False False True" and self = example_block
          and a = example_activity and params = example_request and w = example_env]
        upload_admission [where stage = "example_stage False True True" and self = example_block
          and a = example_activity and params = example_request and w = example_env]
        upload_admission [where stage = "example_stage True True False" and self = example_block
          and a = example_activity and params = example_request and w = example_env]
        upload_admission [where stage = "example_stage True True True" and self = example_block
          and a = example_activity and params = example_request and w = example_env]
        upload_admission [where stage = "example_stage True True True" and self = example_block
          and a = example_activity and params = Map.empty and w = example_env]
        upload_admission [where stage = "example_stage True True True" and self = example_block
          and a = example_activity and params = "[''doc1'' \<mapsto> TextField ''report'']"
          and w = example_env]
  by (simp add: ex STAGE_NOT_OPEN_TEMPLATE_def STAGE_CLOSED_TEMPLATE_def FAILED_UPLOAD_TITLE_def)

text \<open>
  C5 as stated fails: the stage is available and the requester is a group member, the
  request has no field under the upload id, or a text value there, and the handler answers
  the failure without calling the relay.
\<close>

theorem admitted_without_file_counterexample:
  "available_now (example_stage True True True)
   \<and> is_group_member (example_stage True True True)
   \<and> upload_submission example_block (example_stage True True True) example_activity
       Map.empty example_env
     = ([LogException (Raised \<lparr>exc_class = KeyError, exc_message = Some ''doc1''\<rparr>)],
        Inr \<lparr>body = [''title'' \<mapsto> JStr ''Upload failed.'',
                      ''message'' \<mapsto> JStr ''Error uploading file: doc1''],
             status_code = 500\<rparr>)
   \<and> upload_submission example_block (example_stage True True True) example_activity
       [''doc1'' \<mapsto> TextField ''report''] example_env
     = ([LogException (Raised \<lparr>exc_class = AttributeError,
                                exc_message = Some NO_FILE_ATTRIBUTE\<rparr>)],
        Inr \<lparr>body = [''title'' \<mapsto> JStr ''Upload failed.'',
                      ''message'' \<mapsto> JStr (''Error uploading file: '' @ NO_FILE_ATTRIBUTE)],
             status_code = 500\<rparr>)"
  by (simp add: ex upload_admitted_no_field upload_admitted_text_field FAILED_UPLOAD_TITLE_def)




text \<open>
  C10, as the code has it. When the relay has returned and marking the stage complete, or
  reading the new stage state, raises, the response data is the failure title, the
  failure message and the \<^verbatim>\<open>submissions\<close> entry written before the failure. The status
  is 500, or the code of an \<^verbatim>\<open>ApiError\<close> between 100 and 599, or 200 for the code
  zero; for any other code the handler raises and returns no response.
\<close>

theorem later_failure_keeps_submissions:
  assumes "available_now stage" and "is_group_member stage"
    and "params (upload_id self) = Some (FileField f)"
    and "persist_and_submit_file a f w = (events, Inr uploaded)"
    and "check_submissions_and_mark_complete w = Some e
         \<or> (check_submissions_and_mark_complete w = None \<and> get_new_stage_state_data w = Inl e)"
  shows
    "((\<forall>code. exc_class e \<noteq> ApiError code) \<longrightarrow>
        snd (upload_submission self stage a params w)
          = Inr \<lparr>body = [''title'' \<mapsto> JStr FAILED_UPLOAD_TITLE,
                         ''message'' \<mapsto> JStr (''Error uploading file: '' @ error_message_of e),
                         ''submissions'' \<mapsto> JDict [(submission_id uploaded, file_url uploaded)]],
                 status_code = 500\<rparr>)
     \<and> (\<forall>code. exc_class e = ApiError code \<and> 100 \<le> code \<and> code \<le> 599 \<longrightarrow>
        snd (upload_submission self stage a params w)
          = Inr \<lparr>body = [''title'' \<mapsto> JStr FAILED_UPLOAD_TITLE,
                         ''message'' \<mapsto> JStr (''Error uploading file: '' @ error_message_of e),
                         ''submissions'' \<mapsto> JDict [(submission_id uploaded, file_url uploaded)]],
                 status_code = code\<rparr>)
     \<and> (exc_class e = ApiError 0 \<longrightarrow>
        snd (upload_submission self stage a params w)
          = Inr \<lparr>body = [''title'' \<mapsto> JStr FAILED_UPLOAD_TITLE,
                         ''message'' \<mapsto> JStr (''Error uploading file: '' @ error_message_of e),
                         ''submissions'' \<mapsto> JDict [(submission_id uploaded, file_url uploaded)]],
                 status_code = 200\<rparr>)
     \<and> (\<forall>code. exc_class e = ApiError code \<and> code \<noteq> 0 \<and> \<not> (100 \<le> code \<and> code \<le> 599) \<longrightarrow>
        snd (upload_submission self stage a params w)
          = Inl \<lparr>exc_class = KeyError, exc_message = None\<rparr>)"
proof -
  have "snd (upload_submission self stage a params w) =
        make_response
          [''title'' \<mapsto> JStr FAILED_UPLOAD_TITLE,
           ''message'' \<mapsto> JStr (''Error uploading file: '' @ error_message_of e),
           ''submissions'' \<mapsto> JDict [(submission_id uploaded, file_url uploaded)]]
          (failure_code_of e)"
    using assms(5)
  proof
    assume "check_submissions_and_mark_complete w = Some e"
    then show ?thesis
      using assms(1-4) by (simp add: upload_admitted_check_failed)
  next
    assume "check_submissions_and_mark_complete w = None \<and> get_new_stage_state_data w = Inl e"
    then show ?thesis
      using assms(1-4) by (simp add: upload_admitted_state_failed)
  qed
  then show ?thesis
    using failure_status [of e] by simp
qed

theorem later_failure_keeps_submissions_witness:
  "snd (upload_submission example_block (example_stage True True True) example_activity
         example_request
         (example_env\<lparr>check_submissions_and_mark_complete :=
                        Some (example_error OtherError (Some ''boom''))\<rparr>))
     = Inr \<lparr>body = [''title'' \<mapsto> JStr ''Upload failed.'',
                    ''message'' \<mapsto> JStr ''Error uploading file: boom'',
                    ''submissions'' \<mapsto> JDict [(''s1'', ''http://x/f.pdf'')]],
            status_code = 500\<rparr>
   \<and> snd (upload_submission example_block (example_stage True True True) example_activity
         example_request
         (example_env\<lparr>get_new_stage_state_data :=
                        Inl (example_error (ApiError 404) (Some ''gone''))\<rparr>))
     = Inr \<lparr>body = [''title'' \<mapsto> JStr ''Upload failed.'',
                    ''message'' \<mapsto> JStr ''Error uploading file: gone'',
                    ''submissions'' \<mapsto> JDict [(''s1'', ''http://x/f.pdf'')]],
            status_code = 404\<rparr>
   \<and> (\<exists>r. snd (upload_submission example_block (example_stage True True True) example_activity
         example_request
         (example_env\<lparr>check_submissions_and_mark_complete :=
                        Some (example_error (ApiError 0) None)\<rparr>)) = Inr r
          \<and> status_code r = 200
          \<and> body r ''submissions'' = Some (JDict [(''s1'', ''http://x/f.pdf'')]))
   \<and> snd (upload_submission example_block (example_stage True True True) example_activity
         example_request
         (example_env\<lparr>check_submissions_and_mark_complete :=
                        Some (example_error (ApiError 1000) None)\<rparr>))
     = Inl \<lparr>exc_class = KeyError, exc_message = None\<rparr>"
proof -
  let ?stage = "example_stage True True True"
  let ?e1 = "example_error OtherError (Some ''boom'')"
  let ?e2 = "example_error (ApiError 404) (Some ''gone'')"
  let ?e3 = "example_error (ApiError 0) None"
  let ?e4 = "example_error (ApiError 1000) None"
  let ?w1 = "example_env\<lparr>check_submissions_and_mark_complete := Some ?e1\<rparr>"
  let ?w2 = "example_env\<lparr>get_new_stage_state_data := Inl ?e2\<rparr>"
  let ?w3 = "example_env\<lparr>check_submissions_and_mark_complete := Some ?e3\<rparr>"
  let ?w4 = "example_env\<lparr>check_submissions_and_mark_complete := Some ?e4\<rparr>"
  let ?events = "[SaveFile ''f.pdf'', Submit ''f.pdf'',
           Publish ''activity.received_submission''
             [(''submission_id'', PStr ''s1''), (''filename'', PStr ''f.pdf''),
              (''content_id'', PStr ''act1''), (''group_id'', PInt 3), (''user_id'', PInt 7)],
           FireNotification NotificationsService]"
  let ?uploaded = "\<lparr>uploaded_name = ''f.pdf'', submission_id = ''s1'',
                    file_url = ''http://x/f.pdf''\<rparr>"
  have p1: "persist_and_submit_file example_activity ''f.pdf'' ?w1 = (?events, Inr ?uploaded)"
    by (rule example_relay_ok) (simp_all add: example_env_def)
  have p2: "persist_and_submit_file example_activity ''f.pdf'' ?w2 = (?events, Inr ?uploaded)"
    by (rule example_relay_ok) (simp_all add: example_env_def)
  have p3: "persist_and_submit_file example_activity ''f.pdf'' ?w3 = (?events, Inr ?uploaded)"
    by (rule example_relay_ok) (simp_all add: example_env_def)
  have p4: "persist_and_submit_file example_activity ''f.pdf'' ?w4 = (?events, Inr ?uploaded)"
    by (rule example_relay_ok) (simp_all add: example_env_def)
  have f1: "check_submissions_and_mark_complete ?w1 = Some ?e1
         \<or> (check_submissions_and_mark_complete ?w1 = None \<and> get_new_stage_state_data ?w1 = Inl ?e1)"
    by (simp add: example_env_def)
  have f2: "check_submissions_and_mark_complete ?w2 = Some ?e2
         \<or> (check_submissions_and_mark_complete ?w2 = None \<and> get_new_stage_state_data ?w2 = Inl ?e2)"
    by (simp add: example_env_def)
  have f3: "check_submissions_and_mark_complete ?w3 = Some ?e3
         \<or> (check_submissions_and_mark_complete ?w3 = None \<and> get_new_stage_state_data ?w3 = Inl ?e3)"
    by (simp add: example_env_def)
  have f4: "check_submissions_and_mark_complete ?w4 = Some ?e4
         \<or> (check_submissions_and_mark_complete ?w4 = None \<and> get_new_stage_state_data ?w4 = Inl ?e4)"
    by (simp add: example_env_def)
  note t1 = later_failure_keeps_submissions [where params = example_request
      and self = example_block, OF example_admitted p1 f1]
  note t2 = later_failure_keeps_submissions [where params = example_request
      and self = example_block, OF example_admitted p2 f2]
  note t3 = later_failure_keeps_submissions [where params = example_request
      and self = example_block, OF example_admitted p3 f3]
  note t4 = later_failure_keeps_submissions [where params = example_request
      and self = example_block, OF example_admitted p4 f4]
  have c1: "snd (upload_submission example_block ?stage example_activity example_request ?w1)
     = Inr \<lparr>body = [''title'' \<mapsto> JStr ''Upload failed.'',
                    ''message'' \<mapsto> JStr ''Error uploading file: boom'',
                    ''submissions'' \<mapsto> JDict [(''s1'', ''http://x/f.pdf'')]],
            status_code = 500\<rparr>"
    using t1 by (simp add: example_error_def error_message_of_def FAILED_UPLOAD_TITLE_def)
  have c2: "snd (upload_submission example_block ?stage example_activity example_request ?w2)
     = Inr \<lparr>body = [''title'' \<mapsto> JStr ''Upload failed.'',
                    ''message'' \<mapsto> JStr ''Error uploading file: gone'',
                    ''submissions'' \<mapsto> JDict [(''s1'', ''http://x/f.pdf'')]],
            status_code = 404\<rparr>"
    using t2 by (simp add: example_error_def error_message_of_def FAILED_UPLOAD_TITLE_def)
  have c3: "\<exists>r. snd (upload_submission example_block ?stage example_activity example_request ?w3)
                 = Inr r \<and> status_code r = 200
                 \<and> body r ''submissions'' = Some (JDict [(''s1'', ''http://x/f.pdf'')])"
    using t3 by (simp add: example_error_def)
  have c4: "snd (upload_submission example_block ?stage example_activity example_request ?w4)
     = Inl \<lparr>exc_class = KeyError, exc_message = None\<rparr>"
    using t4 by (simp add: example_error_def)
  from c1 c2 c3 c4 show ?thesis by blast
qed

text \<open>
  C10 as stated fails: the relay returns, marking the stage complete raises an
  \<^verbatim>\<open>ApiError\<close> of code 1000, and the handler raises a \<^verbatim>\<open>KeyError\<close> instead of
  answering, so no error response carries the submissions; with the code 0 the response
  has the status of a successful upload.
\<close>

theorem later_failure_no_response_counterexample:
  "persist_and_submit_file example_activity ''f.pdf''
       (example_env\<lparr>check_submissions_and_mark_complete :=
                      Some (example_error (ApiError 1000) (Some ''client error''))\<rparr>)
     = ([SaveFile ''f.pdf'', Submit ''f.pdf'',
         Publish ''activity.received_submission''
           [(''submission_id'', PStr ''s1''), (''filename'', PStr ''f.pdf''),
            (''content_id'', PStr ''act1''), (''group_id'', PInt 3), (''user_id'', PInt 7)],
         FireNotification NotificationsService],
        Inr \<lparr>uploaded_name = ''f.pdf'', submission_id = ''s1'', file_url = ''http://x/f.pdf''\<rparr>)
   \<and> snd (upload_submission example_block (example_stage True True True) example_activity
         example_request
         (example_env\<lparr>check_submissions_and_mark_complete :=
                        Some (example_error (ApiError 1000) (Some ''client error''))\<rparr>))
     = Inl \<lparr>exc_class = KeyError, exc_message = None\<rparr>
   \<and> snd (upload_submission example_block (example_stage True True True) example_activity
         example_request
         (example_env\<lparr>check_submissions_and_mark_complete :=
                        Some (example_error (ApiError 0) (Some ''no code''))\<rparr>))
     = Inr \<lparr>body = [''title'' \<mapsto> JStr ''Upload failed.'',
                    ''message'' \<mapsto> JStr ''Error uploading file: no code'',
                    ''submissions'' \<mapsto> JDict [(''s1'', ''http://x/f.pdf'')]],
            status_code = 200\<rparr>"
proof -
  let ?events = "[SaveFile ''f.pdf'', Submit ''f.pdf'',
         Publish ''activity.received_submission''
           [(''submission_id'', PStr ''s1''), (''filename'', PStr ''f.pdf''),
            (''content_id'', PStr ''act1''), (''group_id'', PInt 3), (''user_id'', PInt 7)],
         FireNotification NotificationsService]"
  let ?uploaded = "\<lparr>uploaded_name = ''f.pdf'', submission_id = ''s1'',
                    file_url = ''http://x/f.pdf''\<rparr>"
  have p: "\<And>e. persist_and_submit_file example_activity ''f.pdf''
               (example_env\<lparr>check_submissions_and_mark_complete := Some e\<rparr>)
             = (?events, Inr ?uploaded)"
    by (rule example_relay_ok) (simp_all add: example_env_def)
  have c: "\<And>e. check_submissions_and_mark_complete
               (example_env\<lparr>check_submissions_and_mark_complete := Some e\<rparr>) = Some e"
    by simp
  have u: "\<And>e. snd (upload_submission example_block (example_stage True True True)
                    example_activity example_request
                    (example_env\<lparr>check_submissions_and_mark_complete := Some e\<rparr>))
             = make_response
                 [''title'' \<mapsto> JStr FAILED_UPLOAD_TITLE,
                  ''message'' \<mapsto> JStr (''Error uploading file: '' @ error_message_of e),
                  ''submissions'' \<mapsto> JDict [(''s1'', ''http://x/f.pdf'')]]
                 (failure_code_of e)"
    by (simp add: upload_admitted_check_failed [where params = example_request
          and self = example_block, OF example_admitted p c])
  show ?thesis
    by (simp add: p u example_error_def failure_code_of_def make_response_def
                  error_message_of_def FAILED_UPLOAD_TITLE_def)
qed

subsection \<open>The review question and the feedback display\<close>

lemma student_view_selected:
  "block_question self qs = Inr (Some q) \<Longrightarrow>
     student_view escape mean_impl fmt self qs all_feedback =
       (let feedback = map (\<lambda>item. escape (answer item)) (get_feedback self all_feedback);
            render_context =
              [''assessment'' \<mapsto> CBlock self,
               ''question_title'' \<mapsto> CStr (case assessment_title q of
                                               Some t \<Rightarrow> if t \<noteq> [] then t else title q
                                             | None \<Rightarrow> title q),
               ''feedback'' \<mapsto> CList feedback]
        in if show_mean self then
             (case mean_impl feedback of
                Inr m \<Rightarrow> ([], Inr (render_context(''mean'' \<mapsto> CStr (fmt m))))
              | Inl exc \<Rightarrow>
                  if exc_class exc = ValueError
                  then ([LogWarn (Raised exc)], Inr (render_context(''mean'' \<mapsto> CStr ''N/A'')))
                  else ([], Inl exc))
           else ([], Inr render_context))"
  by (simp add: student_view_def Let_def)

text \<open>
  C2. Content that does not parse is rendered as the empty string and nothing is raised;
  the message handed to the log is the template itself, with its two placeholders, so it
  is the same for every question and every content.
\<close>

theorem render_content_malformed:
  "fromstring (question_content self) = None \<Longrightarrow>
     render_content fromstring outer_html self stage
       = ([LogException (Text
            ''Exception when parsing question content for question {question_id}. Content is [{content}].'')],
          [])"
  by (simp add: render_content_def PARSE_MESSAGE_TPL_def Let_def)

theorem render_content_malformed_witness:
  "example_fromstring (question_content (example_question ''<input'')) = None
   \<and> render_content example_fromstring (\<lambda>node. rest node) (example_question ''<input'')
        (example_stage True True True)
      = ([LogException (Text
            ''Exception when parsing question content for question {question_id}. Content is [{content}].'')],
          [])
   \<and> format_parse_message ''q1'' ''<input''
      = ''Exception when parsing question content for question q1. Content is [<input].''"
proof -
  have n: "example_fromstring (question_content (example_question ''<input'')) = None"
    by (simp add: exv)
  show ?thesis
    using n render_content_malformed [where fromstring = example_fromstring
            and self = "example_question ''<input''" and outer_html = "\<lambda>node. rest node"
            and stage = "example_stage True True True", OF n]
    by (simp add: format_parse_message_def)
qed

text \<open>
  C7. \<^verbatim>\<open>get_feedback\<close> keeps the items whose question equals the block's question id,
  compared as strings, in the order of the list; whenever the view returns its context,
  the feedback in it is the escaped answers of exactly these items. The view returns one
  exactly when the block's question is found and, with the mean wanted, \<^verbatim>\<open>mean\<close>
  raises nothing but a \<^verbatim>\<open>ValueError\<close>.
\<close>

theorem displayed_feedback:
  "get_feedback self all_feedback
     = filter (\<lambda>item. Some (question item) = display_question_id self) all_feedback
   \<and> (\<forall>log ctx. student_view escape mean_impl fmt self qs all_feedback = (log, Inr ctx) \<longrightarrow>
         ctx ''feedback''
           = Some (CList (map (\<lambda>item. escape (answer item))
                     (filter (\<lambda>item. Some (question item) = display_question_id self)
                        all_feedback))))
   \<and> ((\<exists>log ctx. student_view escape mean_impl fmt self qs all_feedback = (log, Inr ctx))
        \<longleftrightarrow> (\<exists>q. block_question self qs = Inr (Some q))
            \<and> (show_mean self \<longrightarrow>
                 (\<forall>e. mean_impl (map (\<lambda>item. escape (answer item))
                                  (get_feedback self all_feedback)) = Inl e
                      \<longrightarrow> exc_class e = ValueError)))"
proof (intro conjI allI impI)
  show "get_feedback self all_feedback
     = filter (\<lambda>item. Some (question item) = display_question_id self) all_feedback"
    by (simp add: get_feedback_def)
next
  fix log ctx
  assume v: "student_view escape mean_impl fmt self qs all_feedback = (log, Inr ctx)"
  then obtain q where q: "block_question self qs = Inr (Some q)"
    by (auto simp: student_view_def split: sum.splits option.splits)
  show "ctx ''feedback''
           = Some (CList (map (\<lambda>item. escape (answer item))
                     (filter (\<lambda>item. Some (question item) = display_question_id self)
                        all_feedback)))"
    using v unfolding student_view_selected [OF q]
    by (auto simp: Let_def get_feedback_def split: if_splits sum.splits)
next
  show "(\<exists>log ctx. student_view escape mean_impl fmt self qs all_feedback = (log, Inr ctx))
        \<longleftrightarrow> (\<exists>q. block_question self qs = Inr (Some q))
            \<and> (show_mean self \<longrightarrow>
                 (\<forall>e. mean_impl (map (\<lambda>item. escape (answer item))
                                  (get_feedback self all_feedback)) = Inl e
                      \<longrightarrow> exc_class e = ValueError))"
  proof (cases "\<exists>q. block_question self qs = Inr (Some q)")
    case False
    then show ?thesis
      by (auto simp: student_view_def split: sum.splits option.splits)
  next
    case True
    then obtain q where q: "block_question self qs = Inr (Some q)" ..
    show ?thesis
      unfolding student_view_selected [OF q]
      using q by (auto simp: Let_def split: sum.splits)
  qed
qed

theorem displayed_feedback_witness:
  "student_view html_escape (mean example_float) example_format_1f (example_display False)
       [example_question ''<input/>'']
       [\<lparr>question = ''q1'', answer = ''<b>''\<rparr>, \<lparr>question = ''Q1'', answer = ''x''\<rparr>,
        \<lparr>question = ''q1'', answer = ''5''\<rparr>]
     = ([], Inr [''assessment'' \<mapsto> CBlock (example_display False),
                 ''question_title'' \<mapsto> CStr ''Score'',
                 ''feedback'' \<mapsto> CList [''&lt;b&gt;'', ''5'']])
   \<and> [''assessment'' \<mapsto> CBlock (example_display False),
       ''question_title'' \<mapsto> CStr ''Score'',
       ''feedback'' \<mapsto> CList [''&lt;b&gt;'', ''5'']] ''feedback''
     = Some (CList (map (\<lambda>item. html_escape (answer item))
               [\<lparr>question = ''q1'', answer = ''<b>''\<rparr>, \<lparr>question = ''q1'', answer = ''5''\<rparr>]))"
proof -
  let ?all = "[\<lparr>question = ''q1'', answer = ''<b>''\<rparr>, \<lparr>question = ''Q1'', answer = ''x''\<rparr>,
        \<lparr>question = ''q1'', answer = ''5''\<rparr>]"
  let ?ctx = "[''assessment'' \<mapsto> CBlock (example_display False),
                 ''question_title'' \<mapsto> CStr ''Score'',
                 ''feedback'' \<mapsto> CList [''&lt;b&gt;'', ''5'']]"
  have v: "student_view html_escape (mean example_float) example_format_1f (example_display False)
       [example_question ''<input/>''] ?all = ([], Inr ?ctx)"
    by (simp add: student_view_def block_question_def get_feedback_def exv html_escape_def
                  escape_char_def Let_def)
  have "?ctx ''feedback''
           = Some (CList (map (\<lambda>item. html_escape (answer item))
                     (filter (\<lambda>item. Some (question item)
                                        = display_question_id (example_display False)) ?all)))"
    using displayed_feedback [of "example_display False" ?all html_escape "mean example_float"
            example_format_1f "[example_question ''<input/>'']"] v
    by blast
  then show ?thesis
    using v by (simp add: exv)
qed

subsection \<open>The mean of the feedback\<close>

lemma coerce_all_Some:
  "coerce_all to_number xs = Some vs \<longleftrightarrow> map to_number xs = map Some vs"
  by (induction xs arbitrary: vs) (auto split: option.splits)

lemma coerce_all_None:
  "coerce_all to_number xs = None \<longleftrightarrow> (\<exists>x\<in>set xs. to_number x = None)"
  by (induction xs) (auto split: option.splits)

lemma mean_empty: "mean to_number [] = Inl \<lparr>exc_class = ValueError, exc_message = None\<rparr>"
  by (simp add: mean_def)

lemma mean_all_numbers:
  assumes "map to_number xs = map Some vs" and "vs \<noteq> []"
  shows "mean to_number xs = Inr (sum_list vs / real (length vs))"
proof -
  have "coerce_all to_number xs = Some vs"
    using assms(1) by (simp add: coerce_all_Some)
  with assms(2) show ?thesis
    by (cases vs) (simp_all add: mean_def)
qed

lemma mean_not_a_number:
  "\<exists>x\<in>set xs. to_number x = None \<Longrightarrow>
     mean to_number xs = Inl \<lparr>exc_class = ValueError, exc_message = None\<rparr>"
  by (simp add: mean_def coerce_all_None [symmetric])

lemma block_question_one:
  "filter (\<lambda>q. Some (question_id q) = display_question_id self) qs = [q] \<Longrightarrow>
     block_question self qs = Inr (Some q)"
  by (simp add: block_question_def)

lemma student_view_no_question:
  "filter (\<lambda>q. Some (question_id q) = display_question_id self) qs = [] \<Longrightarrow>
     student_view escape mean_impl fmt self qs all_feedback
       = ([], Inl \<lparr>exc_class = ValueError, exc_message = Some ''No question selected''\<rparr>)"
  by (simp add: student_view_def block_question_def)

lemma html_escape_Nil: "html_escape [] = []"
  by (simp add: html_escape_def)

lemma html_escape_Cons: "html_escape (c # s) = escape_char c @ html_escape s"
  by (simp add: html_escape_def)

lemma escape_char_plain: "\<not> html_special c \<Longrightarrow> escape_char c = [c]"
  by (simp add: html_special_def escape_char_def)

lemma escape_char_special: "html_special c \<Longrightarrow> list_ex html_special (escape_char c)"
  by (auto simp: html_special_def escape_char_def)

lemma html_escape_plain: "\<not> list_ex html_special s \<Longrightarrow> html_escape s = s"
  by (induction s) (simp_all add: html_escape_Nil html_escape_Cons escape_char_plain)

lemma html_escape_special: "list_ex html_special s \<Longrightarrow> list_ex html_special (html_escape s)"
proof (induction s)
  case Nil
  then show ?case by simp
next
  case (Cons c s)
  show ?case
  proof (cases "html_special c")
    case True
    then show ?thesis
      using escape_char_special [of c] by (auto simp: html_escape_Cons list_ex_iff)
  next
    case False
    with Cons show ?thesis
      by (simp add: html_escape_Cons escape_char_plain)
  qed
qed

lemma py_float_escape: "py_float parse (html_escape s) = py_float parse s"
proof (cases "list_ex html_special s")
  case True
  then show ?thesis
    using html_escape_special [of s] by (simp add: py_float_def)
next
  case False
  then show ?thesis
    by (simp add: html_escape_plain)
qed

lemma example_one_question:
  "filter (\<lambda>q. Some (question_id q) = display_question_id (example_display True))
     [example_question ''<input/>''] = [example_question ''<input/>'']"
  by (simp add: exv)

lemma format_1f_four: "format_1f 4 = ''4.0''"
  by (simp add: format_1f_def round_half_even_def nat_digits.simps digit_char_def Let_def)

text \<open>
  C3, as the code has it. With exactly one activity question under the block's question
  id, the mean wanted and no item for that id, the view returns a context with an empty
  feedback list and the placeholder \<^verbatim>\<open>N/A\<close> as the mean, which is not \<^verbatim>\<open>0.0\<close>. With
  no activity question under the block's question id the view raises
  \<^verbatim>\<open>ValueError("No question selected")\<close>. The helper \<^verbatim>\<open>mean\<close> is the one modelled
  from the spec.
\<close>

theorem no_matching_feedback:
  "(filter (\<lambda>q. Some (question_id q) = display_question_id self) qs = [q] \<and> show_mean self
      \<and> (\<forall>item\<in>set all_feedback. Some (question item) \<noteq> display_question_id self)
    \<longrightarrow> (\<exists>log ctx. student_view escape (mean to_number) fmt self qs all_feedback = (log, Inr ctx)
           \<and> ctx ''feedback'' = Some (CList [])
           \<and> ctx ''mean'' = Some (CStr ''N/A'')
           \<and> ctx ''mean'' \<noteq> Some (CStr ''0.0'')))
   \<and> (filter (\<lambda>q. Some (question_id q) = display_question_id self) qs = []
    \<longrightarrow> student_view escape mean_impl fmt self qs all_feedback
          = ([], Inl \<lparr>exc_class = ValueError, exc_message = Some ''No question selected''\<rparr>))"
proof (intro conjI impI)
  assume a: "filter (\<lambda>q. Some (question_id q) = display_question_id self) qs = [q]
      \<and> show_mean self
      \<and> (\<forall>item\<in>set all_feedback. Some (question item) \<noteq> display_question_id self)"
  then have "get_feedback self all_feedback = []"
    by (auto simp: get_feedback_def filter_empty_conv)
  then show "\<exists>log ctx. student_view escape (mean to_number) fmt self qs all_feedback = (log, Inr ctx)
           \<and> ctx ''feedback'' = Some (CList [])
           \<and> ctx ''mean'' = Some (CStr ''N/A'')
           \<and> ctx ''mean'' \<noteq> Some (CStr ''0.0'')"
    using a by (simp add: student_view_selected [OF block_question_one] Let_def mean_empty)
next
  assume "filter (\<lambda>q. Some (question_id q) = display_question_id self) qs = []"
  then show "student_view escape mean_impl fmt self qs all_feedback
          = ([], Inl \<lparr>exc_class = ValueError, exc_message = Some ''No question selected''\<rparr>)"
    by (rule student_view_no_question)
qed

theorem no_matching_feedback_witness:
  "(\<exists>log ctx. student_view html_escape (mean example_float) format_1f
                   (example_display True) [example_question ''<input/>'']
                   [\<lparr>question = ''q2'', answer = ''1''\<rparr>] = (log, Inr ctx)
           \<and> ctx ''feedback'' = Some (CList [])
           \<and> ctx ''mean'' = Some (CStr ''N/A''))
   \<and> student_view html_escape (mean example_float) format_1f (example_display True) []
        [\<lparr>question = ''q2'', answer = ''1''\<rparr>]
      = ([], Inl \<lparr>exc_class = ValueError, exc_message = Some ''No question selected''\<rparr>)"
proof -
  have m: "show_mean (example_display True)"
    by (simp add: exv)
  have n: "\<forall>item\<in>set [\<lparr>question = ''q2'', answer = ''1''\<rparr>].
             Some (question item) \<noteq> display_question_id (example_display True)"
    by (simp add: exv)
  have e: "filter (\<lambda>q. Some (question_id q) = display_question_id (example_display True)) []
             = []"
    by simp
  note t1 = no_matching_feedback [of "example_display True" "[example_question ''<input/>'']"
      "example_question ''<input/>''" "[\<lparr>question = ''q2'', answer = ''1''\<rparr>]"
      html_escape example_float format_1f]
  note t2 = no_matching_feedback [of "example_display True" "[]"
      "example_question ''<input/>''" "[\<lparr>question = ''q2'', answer = ''1''\<rparr>]"
      html_escape example_float format_1f "mean example_float"]
  from t1 example_one_question m n
  have a: "\<exists>log ctx. student_view html_escape (mean example_float) format_1f
                   (example_display True) [example_question ''<input/>'']
                   [\<lparr>question = ''q2'', answer = ''1''\<rparr>] = (log, Inr ctx)
           \<and> ctx ''feedback'' = Some (CList [])
           \<and> ctx ''mean'' = Some (CStr ''N/A'')"
    by blast
  from t2 e
  have b: "student_view html_escape (mean example_float) format_1f (example_display True) []
        [\<lparr>question = ''q2'', answer = ''1''\<rparr>]
      = ([], Inl \<lparr>exc_class = ValueError, exc_message = Some ''No question selected''\<rparr>)"
    by blast
  from a b show ?thesis by blast
qed

text \<open>
  C3 as stated fails: with no activity question under the block's question id the view
  raises before it reads any feedback, whatever the escape function, the mean and the
  format are.
\<close>

theorem no_question_selected_counterexample:
  "\<forall>escape mean_impl fmt.
     student_view escape mean_impl fmt \<lparr>display_question_id = Some ''q1'', show_mean = True\<rparr> []
       [\<lparr>question = ''q2'', answer = ''1''\<rparr>]
     = ([], Inl \<lparr>exc_class = ValueError, exc_message = Some ''No question selected''\<rparr>)"
  by (simp add: student_view_def block_question_def)

text \<open>
  C4, as the code has it. With exactly one activity question under the block's question id
  and the mean wanted: when every filtered answer coerces to a number, the mean in the
  context is the arithmetic mean of these numbers in the one-decimal format, and the
  placeholder when there is no filtered answer; when any filtered answer fails to coerce,
  the view still returns and the mean is \<^verbatim>\<open>N/A\<close>. With no activity question under the
  block's question id the view raises. The view takes the mean of the escaped answers,
  which coerce as the answers themselves do. The helper \<^verbatim>\<open>mean\<close> is the one modelled
  from the spec.
\<close>

theorem mean_all_or_nothing:
  "(filter (\<lambda>q. Some (question_id q) = display_question_id self) qs = [q] \<and> show_mean self
    \<longrightarrow> (\<forall>vs. map (\<lambda>item. py_float parse (answer item)) (get_feedback self all_feedback)
                 = map Some vs
             \<longrightarrow> (\<exists>log ctx. student_view html_escape (mean (py_float parse)) format_1f self qs
                              all_feedback = (log, Inr ctx)
                    \<and> ctx ''mean''
                        = Some (CStr (if vs = [] then ''N/A''
                                      else format_1f (sum_list vs / real (length vs))))))
        \<and> ((\<exists>item\<in>set (get_feedback self all_feedback). py_float parse (answer item) = None)
             \<longrightarrow> (\<exists>log ctx. student_view html_escape (mean (py_float parse)) format_1f self qs
                              all_feedback = (log, Inr ctx)
                    \<and> ctx ''mean'' = Some (CStr ''N/A''))))
   \<and> (filter (\<lambda>q. Some (question_id q) = display_question_id self) qs = []
    \<longrightarrow> student_view html_escape mean_impl fmt self qs all_feedback
          = ([], Inl \<lparr>exc_class = ValueError, exc_message = Some ''No question selected''\<rparr>))"
proof (intro conjI impI allI)
  fix vs
  assume a: "filter (\<lambda>q. Some (question_id q) = display_question_id self) qs = [q]
      \<and> show_mean self"
    and c: "map (\<lambda>item. py_float parse (answer item)) (get_feedback self all_feedback)
                 = map Some vs"
  let ?shown = "map (\<lambda>item. html_escape (answer item)) (get_feedback self all_feedback)"
  have m: "map (py_float parse) ?shown = map Some vs"
    using c by (simp add: py_float_escape comp_def)
  have v: "student_view html_escape (mean (py_float parse)) format_1f self qs all_feedback
       = (let render_context =
              [''assessment'' \<mapsto> CBlock self,
               ''question_title'' \<mapsto> CStr (case assessment_title q of
                                               Some t \<Rightarrow> if t \<noteq> [] then t else title q
                                             | None \<Rightarrow> title q),
               ''feedback'' \<mapsto> CList ?shown]
          in case mean (py_float parse) ?shown of
                Inr m \<Rightarrow> ([], Inr (render_context(''mean'' \<mapsto> CStr (format_1f m))))
              | Inl exc \<Rightarrow>
                  if exc_class exc = ValueError
                  then ([LogWarn (Raised exc)], Inr (render_context(''mean'' \<mapsto> CStr ''N/A'')))
                  else ([], Inl exc))"
    using a by (simp add: student_view_selected [OF block_question_one] Let_def)
  show "\<exists>log ctx. student_view html_escape (mean (py_float parse)) format_1f self qs
                              all_feedback = (log, Inr ctx)
                    \<and> ctx ''mean''
                        = Some (CStr (if vs = [] then ''N/A''
                                      else format_1f (sum_list vs / real (length vs))))"
  proof (cases "vs = []")
    case True
    with m have "?shown = []" by simp
    with True show ?thesis
      unfolding v by (simp add: mean_empty)
  next
    case False
    then show ?thesis
      unfolding v by (simp add: mean_all_numbers [OF m False])
  qed
next
  assume a: "filter (\<lambda>q. Some (question_id q) = display_question_id self) qs = [q]
      \<and> show_mean self"
    and n: "\<exists>item\<in>set (get_feedback self all_feedback). py_float parse (answer item) = None"
  let ?shown = "map (\<lambda>item. html_escape (answer item)) (get_feedback self all_feedback)"
  have "\<exists>x\<in>set ?shown. py_float parse x = None"
    using n by (auto simp: py_float_escape)
  then have "mean (py_float parse) ?shown = Inl \<lparr>exc_class = ValueError, exc_message = None\<rparr>"
    by (rule mean_not_a_number)
  then show "\<exists>log ctx. student_view html_escape (mean (py_float parse)) format_1f self qs
                              all_feedback = (log, Inr ctx)
                    \<and> ctx ''mean'' = Some (CStr ''N/A'')"
    using a by (simp add: student_view_selected [OF block_question_one] Let_def)
next
  assume "filter (\<lambda>q. Some (question_id q) = display_question_id self) qs = []"
  then show "student_view html_escape mean_impl fmt self qs all_feedback
          = ([], Inl \<lparr>exc_class = ValueError, exc_message = Some ''No question selected''\<rparr>)"
    by (rule student_view_no_question)
qed

theorem mean_all_or_nothing_witness:
  "(\<exists>log ctx. student_view html_escape (mean (py_float example_float)) format_1f
            (example_display True) [example_question ''<input/>'']
            [\<lparr>question = ''q1'', answer = ''3''\<rparr>, \<lparr>question = ''q1'', answer = ''5''\<rparr>,
             \<lparr>question = ''q2'', answer = ''1''\<rparr>] = (log, Inr ctx)
          \<and> ctx ''mean'' = Some (CStr ''4.0''))
   \<and> (\<exists>log ctx. student_view html_escape (mean (py_float example_float)) format_1f
            (example_display True) [example_question ''<input/>'']
            [\<lparr>question = ''q1'', answer = ''3''\<rparr>, \<lparr>question = ''q1'', answer = ''n/a''\<rparr>,
             \<lparr>question = ''q2'', answer = ''1''\<rparr>] = (log, Inr ctx)
          \<and> ctx ''mean'' = Some (CStr ''N/A''))
   \<and> student_view html_escape (mean (py_float example_float)) format_1f (example_display True) []
        [\<lparr>question = ''q1'', answer = ''3''\<rparr>]
      = ([], Inl \<lparr>exc_class = ValueError, exc_message = Some ''No question selected''\<rparr>)"
proof -
  let ?numbers = "[\<lparr>question = ''q1'', answer = ''3''\<rparr>, \<lparr>question = ''q1'', answer = ''5''\<rparr>,
             \<lparr>question = ''q2'', answer = ''1''\<rparr>]"
  let ?mixed = "[\<lparr>question = ''q1'', answer = ''3''\<rparr>, \<lparr>question = ''q1'', answer = ''n/a''\<rparr>,
             \<lparr>question = ''q2'', answer = ''1''\<rparr>]"
  have m: "show_mean (example_display True)"
    by (simp add: exv)
  have e: "filter (\<lambda>q. Some (question_id q) = display_question_id (example_display True)) []
             = []"
    by simp
  note t1 = mean_all_or_nothing [of "example_display True" "[example_question ''<input/>'']"
      "example_question ''<input/>''" example_float ?numbers "mean (py_float example_float)"
      format_1f]
  note t2 = mean_all_or_nothing [of "example_display True" "[example_question ''<input/>'']"
      "example_question ''<input/>''" example_float ?mixed "mean (py_float example_float)"
      format_1f]
  note t3 = mean_all_or_nothing [of "example_display True" "[]"
      "example_question ''<input/>''" example_float "[\<lparr>question = ''q1'', answer = ''3''\<rparr>]"
      "mean (py_float example_float)" format_1f]
  have a: "map (\<lambda>item. py_float example_float (answer item))
             (get_feedback (example_display True) ?numbers) = map Some [3, 5]"
    by (simp add: get_feedback_def exv py_float_def html_special_def)
  have b: "\<exists>item\<in>set (get_feedback (example_display True) ?mixed).
             py_float example_float (answer item) = None"
    by (simp add: get_feedback_def exv py_float_def html_special_def)
  from t1 example_one_question m a
  have "\<exists>log ctx. student_view html_escape (mean (py_float example_float)) format_1f
            (example_display True) [example_question ''<input/>''] ?numbers = (log, Inr ctx)
          \<and> ctx ''mean''
              = Some (CStr (if [3, 5 :: real] = [] then ''N/A''
                            else format_1f (sum_list [3, 5] / real (length [3, 5 :: real]))))"
    by blast
  then have c1: "\<exists>log ctx. student_view html_escape (mean (py_float example_float)) format_1f
            (example_display True) [example_question ''<input/>''] ?numbers = (log, Inr ctx)
          \<and> ctx ''mean'' = Some (CStr ''4.0'')"
    by (simp add: format_1f_four)
  from t2 example_one_question m b
  have c2: "\<exists>log ctx. student_view html_escape (mean (py_float example_float)) format_1f
            (example_display True) [example_question ''<input/>''] ?mixed = (log, Inr ctx)
          \<and> ctx ''mean'' = Some (CStr ''N/A'')"
    by blast
  from t3 e
  have c3: "student_view html_escape (mean (py_float example_float)) format_1f
        (example_display True) [] [\<lparr>question = ''q1'', answer = ''3''\<rparr>]
      = ([], Inl \<lparr>exc_class = ValueError, exc_message = Some ''No question selected''\<rparr>)"
    by blast
  from c1 c2 c3 show ?thesis by blast
qed

text \<open>
  C4 as stated fails: an answer fails to coerce, no activity question is under the block's
  question id, and the view raises.
\<close>

theorem mean_no_question_counterexample:
  "\<forall>escape mean_impl fmt.
      student_view escape mean_impl fmt \<lparr>display_question_id = Some ''q1'', show_mean = True\<rparr> []
        [\<lparr>question = ''q1'', answer = ''n/a''\<rparr>]
      = ([], Inl \<lparr>exc_class = ValueError, exc_message = Some ''No question selected''\<rparr>)"
  by (simp add: student_view_def block_question_def)

end
